theory Spec2Isabelle
  imports Main "HOL-Library.Word"
begin

section \<open>Data model\<close>

text \<open>
  The node orchestration core of \<^verbatim>\<open>raiden/raiden_event_handler.py\<close> and
  \<^verbatim>\<open>raiden/raiden_service.py\<close>. Python \<^verbatim>\<open>bytes\<close> are lists of octets, Python
  integers are \<^typ>\<open>int\<close>.
\<close>

type_synonym bytes = "8 word list"
type_synonym address = bytes
type_synonym channel_id = bytes

text \<open>A Python object as far as \<^verbatim>\<open>isinstance(private_key_bin, bytes)\<close> can tell.\<close>

datatype pyobj = PyBytes bytes | PyStr string | PyInt int | PyNone

text \<open>The attributes of a balance proof that the handlers read.\<close>

record balance_proof =
  nonce :: int
  transferred_amount :: int
  locksroot :: bytes
  message_hash :: bytes
  signature :: bytes

text \<open>An unlock proof (the handler reads \<^verbatim>\<open>lock_encoded\<close> only) and a decoded lock
  (the handler reads \<^verbatim>\<open>expiration\<close> only).\<close>

record unlock_proof =
  lock_encoded :: bytes

record lock =
  expiration :: int

text \<open>The attributes every send event offers: \<^verbatim>\<open>recipient\<close>, \<^verbatim>\<open>queue_name\<close>, and the
  rest of the event, which only \<^verbatim>\<open>message_from_sendevent\<close> looks at.\<close>

record send_event =
  recipient :: address
  queue_name :: string
  payload :: bytes

text \<open>
  The events \<^verbatim>\<open>on_raiden_event\<close> tells apart by \<^verbatim>\<open>type(event)\<close>: fourteen handled
  variants, the four members of \<^verbatim>\<open>UNEVENTFUL_EVENTS\<close>, and any other object, of which
  only the printed type is kept.
\<close>

datatype event =
    SendLockedTransfer send_event
  | SendDirectTransfer send_event
  | SendRevealSecret send_event
  | SendBalanceProof send_event
  | SendSecretRequest send_event
  | SendRefundTransfer send_event
  | SendProcessed send_event
  | EventTransferSentSuccess int
  | EventTransferSentFailed int
  | EventUnlockFailed bytes string
  | ContractSendChannelClose channel_id "balance_proof option"
  | ContractSendChannelUpdateTransfer channel_id "balance_proof option"
  | ContractSendChannelWithdraw channel_id "unlock_proof list"
  | ContractSendChannelSettle channel_id
  | EventTransferReceivedSuccess
  | EventUnlockSuccess
  | EventWithdrawFailed
  | EventWithdrawSuccess
  | OtherEvent string

text \<open>A wire message: whether it is an instance of \<^verbatim>\<open>SignedMessage\<close>, its recipient, its
  content, and the key and address it was signed with, if it was.\<close>

record message =
  signable :: bool
  msg_recipient :: address
  msg_body :: bytes
  msg_signature :: "(bytes \<times> address) option"

text \<open>
  Every call the core makes on a collaborator (transport, chain client, channel proxy,
  completion handle, logger, chain event feed), with its arguments. The node state keeps
  the calls made so far, oldest first. A completion handle (\<^verbatim>\<open>AsyncResult\<close>) is the
  number it was created under.
\<close>

datatype call =
    SendAsync address string message
  | StartHealthCheck address
  | AsyncResultSet nat bool
  | LogError string
  | LogDebug string
  | NettingChannel channel_id
  | ChannelClose channel_id int int bytes bytes bytes
  | ChannelUpdateTransfer channel_id int int bytes bytes bytes
  | ChannelWithdraw channel_id unlock_proof
  | ChannelSettle channel_id
  | PollBlockchainEvents

datatype error =
    ValueError string
  | AssertionError
  | KeyError int
  | ChainFailure call

text \<open>The state changes \<^verbatim>\<open>raiden_service.py\<close> constructs.\<close>

datatype transfer_description =
  TransferDescriptionWithSecretState int int address address address bytes

datatype route_state = RouteState address address

datatype state_change =
    ActionInitNode int
  | Block int
  | ActionChangeNodeNetworkState address string
  | ActionTransferDirect address address int int
  | ActionInitInitiator transfer_description "route_state list"
  | ActionInitMediator "route_state list" route_state bytes
  | ActionInitTarget route_state bytes
  | ContractReceiveNewPaymentNetwork address "bytes list"
  | ActionLeaveAllNetworks

text \<open>The callbacks the service registers with the alarm task.\<close>

datatype callback = Poll_blockchain_events | Set_block_number

text \<open>
  The attributes of \<^verbatim>\<open>RaidenService\<close> the modelled methods touch, from the point in
  \<^verbatim>\<open>start\<close> where the write-ahead log is restored or primed, so that
  \<^verbatim>\<open>wal.state_manager.current_state\<close> is a node state \<open>'ns\<close>.
  \<open>identifier_to_results\<close> is the \<^verbatim>\<open>defaultdict(list)\<close> of completion handles;
  \<open>cached_block_number\<close> is \<^verbatim>\<open>self._block_number\<close>; \<open>wal_log\<close> is the durable log;
  \<open>alarm_callbacks\<close> is \<^verbatim>\<open>self.alarm.callbacks\<close>. \<open>next_async_result\<close>, \<open>draws\<close> and
  \<open>polls\<close> count the handles created, the random draws made and the chain polls made.
\<close>

record 'ns raiden =
  address :: address
  privkey :: bytes
  identifier_to_results :: "int \<rightharpoonup> nat list"
  current_state :: 'ns
  wal_log :: "(state_change \<times> int) list"
  cached_block_number :: "int option"
  alarm_callbacks :: "callback list"
  next_async_result :: nat
  draws :: nat
  polls :: nat
  trace :: "call list"

text \<open>
  The collaborators whose code is outside the two modelled files, as parameters:
  \<^verbatim>\<open>raiden.messages.message_from_sendevent\<close> and \<^verbatim>\<open>Lock.from_bytes\<close>, which chain
  calls raise a chain-level failure, the transition function \<^verbatim>\<open>node.state_transition\<close>,
  \<^verbatim>\<open>views.block_number\<close>, \<^verbatim>\<open>routing.get_best_routes\<close>, the values drawn by
  \<^verbatim>\<open>random.randint\<close> and \<^verbatim>\<open>random_secret\<close>, the constants of \<^verbatim>\<open>raiden.constants\<close>, the
  batch each poll of the chain event feed returns (a chain event is a number here), and
  the state change \<^verbatim>\<open>on_blockchain_event\<close> makes of a chain event, and what the alarm
  task does with the exception of a callback that raised. The first argument of
  \<open>random_randint\<close> and \<open>random_secret\<close> is the number of draws made before.
\<close>

record 'ns env =
  message_from_sendevent :: "event \<Rightarrow> address \<Rightarrow> message"
  lock_from_bytes :: "bytes \<Rightarrow> lock"
  chain_raises :: "call \<Rightarrow> bool"
  state_transition :: "'ns \<Rightarrow> state_change \<Rightarrow> 'ns \<times> event list"
  views_block_number :: "'ns \<Rightarrow> int"
  routing_get_best_routes ::
    "'ns \<Rightarrow> address \<Rightarrow> address \<Rightarrow> address \<Rightarrow> int \<Rightarrow> address option \<Rightarrow> route_state list"
  random_randint :: "nat \<Rightarrow> int \<Rightarrow> int \<Rightarrow> int"
  random_secret :: "nat \<Rightarrow> bytes"
  UINT64_MAX :: int
  NETTINGCHANNEL_SETTLE_TIMEOUT_MIN :: int
  NETTINGCHANNEL_SETTLE_TIMEOUT_MAX :: int
  blockchain_events_poll :: "nat \<Rightarrow> nat list"
  blockchain_event_state_change :: "nat \<Rightarrow> state_change"
  alarm_on_raise :: "error \<Rightarrow> 'ns raiden \<Rightarrow> (error + unit) \<times> 'ns raiden"

section \<open>Effects and exceptions\<close>

text \<open>
  A method takes the node and returns the node it leaves behind together with either the
  exception it raised (\<open>Inl\<close>) or its return value (\<open>Inr\<close>). What a method did before it
  raised stays done.
\<close>

type_synonym ('ns, 'a) action = "'ns raiden \<Rightarrow> (error + 'a) \<times> 'ns raiden"

definition done_with :: "'a \<Rightarrow> ('ns, 'a) action" where
  "done_with a = (\<lambda>s. (Inr a, s))"

definition and_then :: "('ns, 'a) action \<Rightarrow> ('a \<Rightarrow> ('ns, 'b) action) \<Rightarrow> ('ns, 'b) action" where
  "and_then m f = (\<lambda>s. case m s of (Inl e, s') \<Rightarrow> (Inl e, s') | (Inr a, s') \<Rightarrow> f a s')"

text \<open>A \<^verbatim>\<open>for\<close> loop over a list: the first exception ends it.\<close>

fun for_each :: "('a \<Rightarrow> ('ns, unit) action) \<Rightarrow> 'a list \<Rightarrow> ('ns, unit) action" where
  "for_each f [] = done_with ()"
| "for_each f (x # xs) = and_then (f x) (\<lambda>_. for_each f xs)"

text \<open>A call on a collaborator that returns normally.\<close>

definition invoke :: "call \<Rightarrow> ('ns, unit) action" where
  "invoke c = (\<lambda>s. (Inr (), s\<lparr>trace := trace s @ [c]\<rparr>))"

text \<open>A call on the chain client or a channel proxy: it is made, and raises a chain-level
  failure where the environment says so.\<close>

definition chain_call :: "'ns env \<Rightarrow> call \<Rightarrow> ('ns, unit) action" where
  "chain_call env c =
     (\<lambda>s. (if chain_raises env c then Inl (ChainFailure c) else Inr (),
           s\<lparr>trace := trace s @ [c]\<rparr>))"

text \<open>\<^verbatim>\<open>d[k]\<close> and \<^verbatim>\<open>del d[k]\<close> on \<^verbatim>\<open>identifier_to_results\<close>, a \<^verbatim>\<open>defaultdict(list)\<close>:
  reading a missing key stores and returns the empty list; deleting a missing key raises
  \<^verbatim>\<open>KeyError\<close>.\<close>

definition results_getitem :: "int \<Rightarrow> ('ns, nat list) action" where
  "results_getitem k =
     (\<lambda>s. case identifier_to_results s k of
             None \<Rightarrow> (Inr [], s\<lparr>identifier_to_results := (identifier_to_results s)(k \<mapsto> [])\<rparr>)
           | Some v \<Rightarrow> (Inr v, s))"

definition results_delitem :: "int \<Rightarrow> ('ns, unit) action" where
  "results_delitem k =
     (\<lambda>s. case identifier_to_results s k of
             None \<Rightarrow> (Inl (KeyError k), s)
           | Some v \<Rightarrow> (Inr (), s\<lparr>identifier_to_results := (identifier_to_results s)(k := None)\<rparr>))"

section \<open>The service methods the event handler calls\<close>

text \<open>\<^verbatim>\<open>RaidenService.get_block_number\<close>.\<close>

definition get_block_number :: "'ns env \<Rightarrow> ('ns, int) action" where
  "get_block_number env = (\<lambda>s. (Inr (views_block_number env (current_state s)), s))"

text \<open>\<^verbatim>\<open>RaidenService.sign\<close>: signs the message in place; the signed message is the
  value returned here. The error text leaves out the printed message.\<close>

definition sign :: "message \<Rightarrow> ('ns, message) action" where
  "sign m =
     (\<lambda>s. if \<not> signable m then (Inl (ValueError ''is not signable.''), s)
          else (Inr (m\<lparr>msg_signature := Some (privkey s, address s)\<rparr>), s))"

section \<open>The event handler\<close>

definition handle_send_lockedtransfer :: "'ns env \<Rightarrow> send_event \<Rightarrow> ('ns, unit) action" where
  "handle_send_lockedtransfer env send_locked_transfer =
     (\<lambda>s. and_then
            (sign (message_from_sendevent env (SendLockedTransfer send_locked_transfer) (address s)))
            (\<lambda>mediated_transfer_message.
               invoke (SendAsync (msg_recipient mediated_transfer_message)
                         (queue_name send_locked_transfer) mediated_transfer_message)) s)"

definition handle_send_directtransfer :: "'ns env \<Rightarrow> send_event \<Rightarrow> ('ns, unit) action" where
  "handle_send_directtransfer env send_direct_transfer =
     (\<lambda>s. and_then
            (sign (message_from_sendevent env (SendDirectTransfer send_direct_transfer) (address s)))
            (\<lambda>direct_transfer_message.
               invoke (SendAsync (recipient send_direct_transfer)
                         (queue_name send_direct_transfer) direct_transfer_message)) s)"

definition handle_send_revealsecret :: "'ns env \<Rightarrow> send_event \<Rightarrow> ('ns, unit) action" where
  "handle_send_revealsecret env reveal_secret_event =
     (\<lambda>s. and_then
            (sign (message_from_sendevent env (SendRevealSecret reveal_secret_event) (address s)))
            (\<lambda>reveal_secret_message.
               invoke (SendAsync (recipient reveal_secret_event)
                         (queue_name reveal_secret_event) reveal_secret_message)) s)"

definition handle_send_balanceproof :: "'ns env \<Rightarrow> send_event \<Rightarrow> ('ns, unit) action" where
  "handle_send_balanceproof env balance_proof_event =
     (\<lambda>s. and_then
            (sign (message_from_sendevent env (SendBalanceProof balance_proof_event) (address s)))
            (\<lambda>secret_message.
               invoke (SendAsync (recipient balance_proof_event)
                         (queue_name balance_proof_event) secret_message)) s)"

definition handle_send_secretrequest :: "'ns env \<Rightarrow> send_event \<Rightarrow> ('ns, unit) action" where
  "handle_send_secretrequest env secret_request_event =
     (\<lambda>s. and_then
            (sign (message_from_sendevent env (SendSecretRequest secret_request_event) (address s)))
            (\<lambda>secret_request_message.
               invoke (SendAsync (recipient secret_request_event)
                         (queue_name secret_request_event) secret_request_message)) s)"

definition handle_send_refundtransfer :: "'ns env \<Rightarrow> send_event \<Rightarrow> ('ns, unit) action" where
  "handle_send_refundtransfer env refund_transfer_event =
     (\<lambda>s. and_then
            (sign (message_from_sendevent env (SendRefundTransfer refund_transfer_event) (address s)))
            (\<lambda>refund_transfer_message.
               invoke (SendAsync (recipient refund_transfer_event)
                         (queue_name refund_transfer_event) refund_transfer_message)) s)"

definition handle_send_processed :: "'ns env \<Rightarrow> send_event \<Rightarrow> ('ns, unit) action" where
  "handle_send_processed env processed_event =
     (\<lambda>s. and_then
            (sign (message_from_sendevent env (SendProcessed processed_event) (address s)))
            (\<lambda>processed_message.
               invoke (SendAsync (recipient processed_event)
                         (queue_name processed_event) processed_message)) s)"

definition handle_transfersentsuccess :: "int \<Rightarrow> ('ns, unit) action" where
  "handle_transfersentsuccess identifier =
     and_then (results_getitem identifier) (\<lambda>results.
     and_then (for_each (\<lambda>result. invoke (AsyncResultSet result True)) results) (\<lambda>_.
     results_delitem identifier))"

definition handle_transfersentfailed :: "int \<Rightarrow> ('ns, unit) action" where
  "handle_transfersentfailed identifier =
     and_then (results_getitem identifier) (\<lambda>results.
     and_then (for_each (\<lambda>result. invoke (AsyncResultSet result False)) results) (\<lambda>_.
     results_delitem identifier))"

definition handle_unlockfailed :: "bytes \<Rightarrow> string \<Rightarrow> ('ns, unit) action" where
  "handle_unlockfailed secrethash reason = invoke (LogError ''UnlockFailed!'')"

definition handle_contract_channelclose ::
  "'ns env \<Rightarrow> channel_id \<Rightarrow> balance_proof option \<Rightarrow> ('ns, unit) action" where
  "handle_contract_channelclose env channel_identifier balance_proof =
     (let (nonce', transferred_amount', locksroot', signature', message_hash') =
            (case balance_proof of
               Some bp \<Rightarrow>
                 (nonce bp, transferred_amount bp, locksroot bp, signature bp, message_hash bp)
             | None \<Rightarrow> (0, 0, [], [], []))
      in and_then (chain_call env (NettingChannel channel_identifier)) (\<lambda>_.
         chain_call env
           (ChannelClose channel_identifier nonce' transferred_amount' locksroot'
              message_hash' signature')))"

definition handle_contract_channelupdate ::
  "'ns env \<Rightarrow> channel_id \<Rightarrow> balance_proof option \<Rightarrow> ('ns, unit) action" where
  "handle_contract_channelupdate env channel_identifier balance_proof =
     (case balance_proof of
        Some bp \<Rightarrow>
          and_then (chain_call env (NettingChannel channel_identifier)) (\<lambda>_.
          chain_call env
            (ChannelUpdateTransfer channel_identifier (nonce bp) (transferred_amount bp)
               (locksroot bp) (message_hash bp) (signature bp)))
      | None \<Rightarrow> done_with ())"

definition handle_contract_channelwithdraw ::
  "'ns env \<Rightarrow> channel_id \<Rightarrow> unlock_proof list \<Rightarrow> ('ns, unit) action" where
  "handle_contract_channelwithdraw env channel_identifier unlock_proofs =
     and_then (chain_call env (NettingChannel channel_identifier)) (\<lambda>_.
     and_then (get_block_number env) (\<lambda>block_number.
     for_each
       (\<lambda>unlock_proof.
          let lock = lock_from_bytes env (lock_encoded unlock_proof)
          in if expiration lock < block_number then invoke (LogError ''Lock has expired!'')
             else chain_call env (ChannelWithdraw channel_identifier unlock_proof))
       unlock_proofs))"

definition handle_contract_channelsettle :: "'ns env \<Rightarrow> channel_id \<Rightarrow> ('ns, unit) action" where
  "handle_contract_channelsettle env channel_identifier =
     and_then (chain_call env (NettingChannel channel_identifier)) (\<lambda>_.
     chain_call env (ChannelSettle channel_identifier))"

fun on_raiden_event :: "'ns env \<Rightarrow> event \<Rightarrow> ('ns, unit) action" where
  "on_raiden_event env (SendLockedTransfer e) = handle_send_lockedtransfer env e"
| "on_raiden_event env (SendDirectTransfer e) = handle_send_directtransfer env e"
| "on_raiden_event env (SendRevealSecret e) = handle_send_revealsecret env e"
| "on_raiden_event env (SendBalanceProof e) = handle_send_balanceproof env e"
| "on_raiden_event env (SendSecretRequest e) = handle_send_secretrequest env e"
| "on_raiden_event env (SendRefundTransfer e) = handle_send_refundtransfer env e"
| "on_raiden_event env (SendProcessed e) = handle_send_processed env e"
| "on_raiden_event env (EventTransferSentSuccess identifier) =
     handle_transfersentsuccess identifier"
| "on_raiden_event env (EventTransferSentFailed identifier) =
     handle_transfersentfailed identifier"
| "on_raiden_event env (EventUnlockFailed secrethash reason) =
     handle_unlockfailed secrethash reason"
| "on_raiden_event env (ContractSendChannelClose cid bp) =
     handle_contract_channelclose env cid bp"
| "on_raiden_event env (ContractSendChannelUpdateTransfer cid bp) =
     handle_contract_channelupdate env cid bp"
| "on_raiden_event env (ContractSendChannelWithdraw cid proofs) =
     handle_contract_channelwithdraw env cid proofs"
| "on_raiden_event env (ContractSendChannelSettle cid) =
     handle_contract_channelsettle env cid"
| "on_raiden_event env EventTransferReceivedSuccess = done_with ()"
| "on_raiden_event env EventUnlockSuccess = done_with ()"
| "on_raiden_event env EventWithdrawFailed = done_with ()"
| "on_raiden_event env EventWithdrawSuccess = done_with ()"
| "on_raiden_event env (OtherEvent type_name) =
     invoke (LogError (''Unknown event '' @ type_name))"

section \<open>The service\<close>

text \<open>The configuration entry the constructor checks.\<close>

record config =
  settle_timeout :: int

text \<open>\<^verbatim>\<open>RaidenService.__init__\<close>, lines 165 to 175: the checks made before any attribute
  is set. The constructor goes on only where this returns normally. The second error text
  leaves out the two bounds.\<close>

definition RaidenService_init_checks :: "'ns env \<Rightarrow> pyobj \<Rightarrow> config \<Rightarrow> error + unit" where
  "RaidenService_init_checks env private_key_bin config =
     (if (case private_key_bin of PyBytes b \<Rightarrow> length b \<noteq> 32 | _ \<Rightarrow> True)
      then Inl (ValueError ''invalid private_key'')
      else
        let invalid_timeout =
              (settle_timeout config < NETTINGCHANNEL_SETTLE_TIMEOUT_MIN env \<or>
               settle_timeout config > NETTINGCHANNEL_SETTLE_TIMEOUT_MAX env)
        in if invalid_timeout then Inl (ValueError ''settle_timeout must be in range'')
           else Inr ())"



text \<open>Modelled from the spec: \<^verbatim>\<open>wal.log_and_dispatch\<close> (\<^verbatim>\<open>raiden/storage/wal.py\<close> is not
  among the sources). It appends the state change and the block number to the durable
  log, applies the transition function to the current state, replaces the state and
  returns the events.\<close>

definition log_and_dispatch :: "'ns env \<Rightarrow> state_change \<Rightarrow> int \<Rightarrow> ('ns, event list) action" where
  "log_and_dispatch env state_change block_number =
     (\<lambda>s. let (new_state, events) = state_transition env (current_state s) state_change
          in (Inr events,
              s\<lparr>wal_log := wal_log s @ [(state_change, block_number)],
                current_state := new_state\<rparr>))"

text \<open>\<^verbatim>\<open>RaidenService.handle_state_change\<close>, and before it the loop over the event list
  that ends it. Nothing in the loop catches an exception.\<close>

definition dispatch_events :: "'ns env \<Rightarrow> event list \<Rightarrow> ('ns, unit) action" where
  "dispatch_events env event_list =
     for_each
       (\<lambda>event. and_then (invoke (LogDebug ''EVENT'')) (\<lambda>_. on_raiden_event env event))
       event_list"

definition handle_state_change ::
  "'ns env \<Rightarrow> state_change \<Rightarrow> int option \<Rightarrow> ('ns, event list) action" where
  "handle_state_change env state_change block_number =
     and_then (invoke (LogDebug ''STATE CHANGE'')) (\<lambda>_.
     and_then (case block_number of None \<Rightarrow> get_block_number env | Some b \<Rightarrow> done_with b)
       (\<lambda>block_number'.
     and_then (log_and_dispatch env state_change block_number') (\<lambda>event_list.
     and_then (dispatch_events env event_list) (\<lambda>_.
     done_with event_list))))"







text \<open>\<^verbatim>\<open>create_default_identifier\<close> and \<^verbatim>\<open>random_secret()\<close>: the next random draw.\<close>

definition create_default_identifier :: "'ns env \<Rightarrow> ('ns, int) action" where
  "create_default_identifier env =
     (\<lambda>s. (Inr (random_randint env (draws s) 0 (UINT64_MAX env)), s\<lparr>draws := Suc (draws s)\<rparr>))"

definition draw_random_secret :: "'ns env \<Rightarrow> ('ns, bytes) action" where
  "draw_random_secret env = (\<lambda>s. (Inr (random_secret env (draws s)), s\<lparr>draws := Suc (draws s)\<rparr>))"

text \<open>\<^verbatim>\<open>AsyncResult()\<close>: a fresh completion handle.\<close>

definition new_async_result :: "('ns, nat) action" where
  "new_async_result =
     (\<lambda>s. (Inr (next_async_result s), s\<lparr>next_async_result := Suc (next_async_result s)\<rparr>))"

text \<open>\<^verbatim>\<open>self.identifier_to_results[identifier].append(async_result)\<close>.\<close>

definition results_append :: "int \<Rightarrow> nat \<Rightarrow> ('ns, unit) action" where
  "results_append k h =
     and_then (results_getitem k) (\<lambda>results.
     (\<lambda>s. (Inr (), s\<lparr>identifier_to_results := (identifier_to_results s)(k \<mapsto> results @ [h])\<rparr>)))"

definition initiator_init ::
  "'ns env \<Rightarrow> int \<Rightarrow> int \<Rightarrow> bytes \<Rightarrow> address \<Rightarrow> address \<Rightarrow> ('ns, state_change) action" where
  "initiator_init env transfer_identifier transfer_amount transfer_secret
     token_network_identifier target_address =
     (\<lambda>s. let transfer_state =
                TransferDescriptionWithSecretState transfer_identifier transfer_amount
                  token_network_identifier (address s) target_address transfer_secret;
              previous_address = None;
              routes =
                routing_get_best_routes env (current_state s) token_network_identifier
                  (address s) target_address transfer_amount previous_address;
              init_initiator_statechange = ActionInitInitiator transfer_state routes
          in (Inr init_initiator_statechange, s))"

definition start_mediated_transfer ::
  "'ns env \<Rightarrow> address \<Rightarrow> int \<Rightarrow> address \<Rightarrow> int option \<Rightarrow> ('ns, nat) action" where
  "start_mediated_transfer env token_network_identifier amount target identifier =
     and_then (invoke (StartHealthCheck target)) (\<lambda>_.
     and_then (case identifier of None \<Rightarrow> create_default_identifier env | Some i \<Rightarrow> done_with i)
       (\<lambda>identifier'.
     and_then
       (\<lambda>s. if identifier_to_results s identifier' \<noteq> None then (Inl AssertionError, s)
            else (Inr (), s)) (\<lambda>_.
     and_then new_async_result (\<lambda>async_result.
     and_then (results_append identifier' async_result) (\<lambda>_.
     and_then (draw_random_secret env) (\<lambda>secret.
     and_then
       (initiator_init env identifier' amount secret token_network_identifier target)
       (\<lambda>init_initiator_statechange.
     and_then (handle_state_change env init_initiator_statechange None) (\<lambda>_.
     done_with async_result))))))))"

text \<open>Modelled from the spec: the transition function (\<^verbatim>\<open>raiden/transfer/node.py\<close> is not
  among the sources) on an initiator-init state change without routes. It produces the
  transfer-sent-failed event for the transfer's identifier.\<close>

definition fails_without_routes :: "'ns env \<Rightarrow> 'ns \<Rightarrow> transfer_description \<Rightarrow> bool" where
  "fails_without_routes env node_state transfer =
     (case transfer of
        TransferDescriptionWithSecretState identifier _ _ _ _ _ \<Rightarrow>
          snd (state_transition env node_state (ActionInitInitiator transfer [])) =
            [EventTransferSentFailed identifier])"

text \<open>The unlock proofs of the withdraw calls in a list of calls, in order.\<close>

fun submitted :: "call list \<Rightarrow> unlock_proof list" where
  "submitted [] = []"
| "submitted (ChannelWithdraw cid p # cs) = p # submitted cs"
| "submitted (c # cs) = submitted cs"

section \<open>A small node to run the model on\<close>

text \<open>
  The node state is its block number. Locks decode to an expiration equal to the length
  of their encoding, no chain call fails, a new block is the only state change that
  moves the state, an initiation without routes fails at once, the first poll of the
  chain feed returns one event, and the alarm ends a tick on the exception of a callback.
\<close>

definition demo_env :: "int env" where
  "demo_env =
     \<lparr>message_from_sendevent =
        (\<lambda>e a. \<lparr>signable = True, msg_recipient = [], msg_body = [], msg_signature = None\<rparr>),
      lock_from_bytes = (\<lambda>b. \<lparr>expiration = int (length b)\<rparr>),
      chain_raises = (\<lambda>c. False),
      state_transition =
        (\<lambda>ns sc. case sc of
                    Block b \<Rightarrow> (b, [])
                  | ActionInitInitiator (TransferDescriptionWithSecretState i _ _ _ _ _) [] \<Rightarrow>
                      (ns, [EventTransferSentFailed i])
                  | _ \<Rightarrow> (ns, [])),
      views_block_number = (\<lambda>ns. ns),
      routing_get_best_routes = (\<lambda>_ _ _ _ _ _. []),
      random_randint = (\<lambda>_ lo _. lo),
      random_secret = (\<lambda>_. []),
      UINT64_MAX = 18446744073709551615,
      NETTINGCHANNEL_SETTLE_TIMEOUT_MIN = 6,
      NETTINGCHANNEL_SETTLE_TIMEOUT_MAX = 2700000,
      blockchain_events_poll = (\<lambda>n. if n = 0 then [7] else []),
      blockchain_event_state_change = (\<lambda>_. ContractReceiveNewPaymentNetwork [] []),
      alarm_on_raise = (\<lambda>e s. (Inl e, s))\<rparr>"

text \<open>The same, with a chain client that fails to settle channel 1 and a transition
  function that asks for the channels 0, 1 and 2 to be settled.\<close>

definition failing_env :: "int env" where
  "failing_env =
     demo_env
       \<lparr>chain_raises := (\<lambda>c. c = ChannelSettle [1]),
        state_transition :=
          (\<lambda>ns sc. (ns, [ContractSendChannelSettle [0], ContractSendChannelSettle [1],
                         ContractSendChannelSettle [2]]))\<rparr>"


text \<open>A node at block 5 with one pending transfer, identifier 42, handle 0.\<close>

definition demo_node :: "int raiden" where
  "demo_node =
     \<lparr>address = [], privkey = [], identifier_to_results = [42 \<mapsto> [0]], current_state = 5,
      wal_log = [], cached_block_number = None, alarm_callbacks = [],
      next_async_result = 1, draws = 0, polls = 0, trace = []\<rparr>"

section \<open>What a method leaves alone\<close>

text \<open>
  A reading \<open>g\<close> of the node that does not depend on the recorded calls nor on the
  registry of completion handles is the same before and after an event is dispatched,
  whether the dispatch raises or not. The lemmas follow the structure of the handlers.
\<close>

lemma and_then_keeps:
  assumes "\<And>s. g (snd (m s)) = g s" and "\<And>a s. g (snd (f a s)) = g s"
  shows "g (snd (and_then m f s)) = g s"
proof (cases "m s")
  case (Pair r s')
  with assms(1) [of s] have s': "g s' = g s" by simp
  show ?thesis
  proof (cases r)
    case (Inl e)
    with Pair s' show ?thesis by (simp add: and_then_def)
  next
    case (Inr a)
    with Pair s' assms(2) [of a s'] show ?thesis by (simp add: and_then_def)
  qed
qed

lemma for_each_keeps:
  assumes "\<And>x s. g (snd (f x s)) = g s"
  shows "g (snd (for_each f xs s)) = g s"
proof (induction xs arbitrary: s)
  case Nil
  show ?case by (simp add: done_with_def)
next
  case (Cons x xs)
  show ?case unfolding for_each.simps
    by (rule and_then_keeps) (simp_all add: assms Cons.IH)
qed

lemma invoke_keeps:
  assumes "\<And>s t. g (s\<lparr>trace := t\<rparr>) = g s"
  shows "g (snd (invoke c s)) = g s"
  by (simp add: invoke_def assms)

lemma chain_call_keeps:
  assumes "\<And>s t. g (s\<lparr>trace := t\<rparr>) = g s"
  shows "g (snd (chain_call env c s)) = g s"
  by (simp add: chain_call_def assms)

lemma sign_keeps: "g (snd (sign m s)) = g s"
  by (simp add: sign_def)

lemma results_getitem_keeps:
  assumes "\<And>s m. g (s\<lparr>identifier_to_results := m\<rparr>) = g s"
  shows "g (snd (results_getitem k s)) = g s"
  by (simp add: results_getitem_def assms split: option.split)

lemma results_delitem_keeps:
  assumes "\<And>s m. g (s\<lparr>identifier_to_results := m\<rparr>) = g s"
  shows "g (snd (results_delitem k s)) = g s"
  by (simp add: results_delitem_def assms split: option.split)

lemma send_keeps:
  assumes "\<And>s t. g (s\<lparr>trace := t\<rparr>) = g s"
  shows "g (snd (and_then (sign m) (\<lambda>m'. invoke (c m')) s)) = g s"
  by (rule and_then_keeps) (simp_all add: sign_keeps invoke_keeps assms)

lemma on_raiden_event_keeps:
  assumes tr: "\<And>s t. g (s\<lparr>trace := t\<rparr>) = g s"
    and res: "\<And>s m. g (s\<lparr>identifier_to_results := m\<rparr>) = g s"
  shows "g (snd (on_raiden_event env e s)) = g s"
proof (cases e)
  case (SendLockedTransfer x)
  then show ?thesis by (simp add: handle_send_lockedtransfer_def) (rule send_keeps [OF tr])
next
  case (SendDirectTransfer x)
  then show ?thesis by (simp add: handle_send_directtransfer_def) (rule send_keeps [OF tr])
next
  case (SendRevealSecret x)
  then show ?thesis by (simp add: handle_send_revealsecret_def) (rule send_keeps [OF tr])
next
  case (SendBalanceProof x)
  then show ?thesis by (simp add: handle_send_balanceproof_def) (rule send_keeps [OF tr])
next
  case (SendSecretRequest x)
  then show ?thesis by (simp add: handle_send_secretrequest_def) (rule send_keeps [OF tr])
next
  case (SendRefundTransfer x)
  then show ?thesis by (simp add: handle_send_refundtransfer_def) (rule send_keeps [OF tr])
next
  case (SendProcessed x)
  then show ?thesis by (simp add: handle_send_processed_def) (rule send_keeps [OF tr])
next
  case (EventTransferSentSuccess i)
  have "g (snd (handle_transfersentsuccess i s)) = g s"
    unfolding handle_transfersentsuccess_def
    by (intro and_then_keeps for_each_keeps results_getitem_keeps results_delitem_keeps
        invoke_keeps tr res)
  with EventTransferSentSuccess show ?thesis by simp
next
  case (EventTransferSentFailed i)
  have "g (snd (handle_transfersentfailed i s)) = g s"
    unfolding handle_transfersentfailed_def
    by (intro and_then_keeps for_each_keeps results_getitem_keeps results_delitem_keeps
        invoke_keeps tr res)
  with EventTransferSentFailed show ?thesis by simp
next
  case (EventUnlockFailed h r)
  then show ?thesis by (simp add: handle_unlockfailed_def) (rule invoke_keeps [OF tr])
next
  case (ContractSendChannelClose cid bp)
  have "g (snd (handle_contract_channelclose env cid bp s)) = g s"
    unfolding handle_contract_channelclose_def Let_def split_def
    by (intro and_then_keeps chain_call_keeps tr)
  with ContractSendChannelClose show ?thesis by simp
next
  case (ContractSendChannelUpdateTransfer cid bp)
  have "g (snd (handle_contract_channelupdate env cid bp s)) = g s"
  proof (cases bp)
    case None
    then show ?thesis by (simp add: handle_contract_channelupdate_def done_with_def)
  next
    case (Some b)
    then show ?thesis
      by (simp add: handle_contract_channelupdate_def)
        (intro and_then_keeps chain_call_keeps tr)
  qed
  with ContractSendChannelUpdateTransfer show ?thesis by simp
next
  case (ContractSendChannelWithdraw cid proofs)
  have step: "\<And>b p s. g (snd ((let lock = lock_from_bytes env (lock_encoded p)
          in if expiration lock < b then invoke (LogError ''Lock has expired!'')
             else chain_call env (ChannelWithdraw cid p)) s)) = g s"
    by (simp add: Let_def invoke_def chain_call_def tr)
  have gbn: "\<And>s. g (snd (get_block_number env s)) = g s"
    by (simp add: get_block_number_def)
  have "g (snd (handle_contract_channelwithdraw env cid proofs s)) = g s"
    unfolding handle_contract_channelwithdraw_def
    by (intro and_then_keeps for_each_keeps chain_call_keeps tr gbn step)
  with ContractSendChannelWithdraw show ?thesis by simp
next
  case (ContractSendChannelSettle cid)
  have "g (snd (handle_contract_channelsettle env cid s)) = g s"
    unfolding handle_contract_channelsettle_def
    by (intro and_then_keeps chain_call_keeps tr)
  with ContractSendChannelSettle show ?thesis by simp
qed (simp_all add: done_with_def invoke_def tr)

section \<open>Loops that only call collaborators\<close>

lemma for_each_invoke:
  "for_each (\<lambda>x. invoke (f x)) xs s = (Inr (), s\<lparr>trace := trace s @ map f xs\<rparr>)"
  by (induction xs arbitrary: s) (simp_all add: done_with_def and_then_def invoke_def)

lemma withdraw_loop:
  assumes "\<forall>p \<in> set ps. \<not> chain_raises env (ChannelWithdraw cid p)"
  shows "for_each
       (\<lambda>unlock_proof.
          if expiration (lock_from_bytes env (lock_encoded unlock_proof)) < b
          then invoke (LogError ''Lock has expired!'')
          else chain_call env (ChannelWithdraw cid unlock_proof)) ps s =
     (Inr (), s\<lparr>trace := trace s @
        map (\<lambda>p. if expiration (lock_from_bytes env (lock_encoded p)) < b
                  then LogError ''Lock has expired!'' else ChannelWithdraw cid p) ps\<rparr>)"
  using assms
  by (induction ps arbitrary: s)
    (simp_all add: done_with_def and_then_def invoke_def chain_call_def)

lemma submitted_append: "submitted (cs @ ds) = submitted cs @ submitted ds"
  by (induction cs rule: submitted.induct) simp_all

lemma submitted_map:
  "submitted (map (\<lambda>p. if P p then LogError m else ChannelWithdraw cid p) ps) =
   filter (\<lambda>p. \<not> P p) ps"
  by (induction ps) simp_all

lemma transfersentsuccess_registered:
  assumes "identifier_to_results s i = Some handles"
  shows "handle_transfersentsuccess i s =
      (Inr (), s\<lparr>trace := trace s @ map (\<lambda>h. AsyncResultSet h True) handles,
                 identifier_to_results := (identifier_to_results s)(i := None)\<rparr>)"
  using assms
  by (simp add: handle_transfersentsuccess_def and_then_def results_getitem_def
      results_delitem_def for_each_invoke)

lemma transfersentfailed_registered:
  assumes "identifier_to_results s i = Some handles"
  shows "handle_transfersentfailed i s =
      (Inr (), s\<lparr>trace := trace s @ map (\<lambda>h. AsyncResultSet h False) handles,
                 identifier_to_results := (identifier_to_results s)(i := None)\<rparr>)"
  using assms
  by (simp add: handle_transfersentfailed_def and_then_def results_getitem_def
      results_delitem_def for_each_invoke)

section \<open>Expired locks at withdraw\<close>

text \<open>
  Claim C1, as the code has it. When a \<^verbatim>\<open>ContractSendChannelWithdraw\<close> event is dispatched
  at block \<open>b\<close> (the block number of the current node state) and neither the proxy lookup
  nor a withdraw call fails, the handler resolves the proxy and then goes through the
  unlock proofs in order: a lock whose expiration is strictly below \<open>b\<close> is logged as
  expired and not submitted, every other lock is submitted. So exactly the locks with
  \<open>b \<le> expiration\<close> are submitted, among them a lock that expires at \<open>b\<close> itself.
\<close>

theorem withdraw_submits_unexpired:
  assumes "\<not> chain_raises env (NettingChannel cid)"
    and "\<forall>p \<in> set proofs. \<not> chain_raises env (ChannelWithdraw cid p)"
  shows "on_raiden_event env (ContractSendChannelWithdraw cid proofs) s =
           (Inr (),
            s\<lparr>trace := trace s @ NettingChannel cid #
               map (\<lambda>p. if expiration (lock_from_bytes env (lock_encoded p))
                            < views_block_number env (current_state s)
                         then LogError ''Lock has expired!'' else ChannelWithdraw cid p)
                 proofs\<rparr>) \<and>
         submitted (trace (snd (on_raiden_event env (ContractSendChannelWithdraw cid proofs) s))) =
           submitted (trace s) @
           filter (\<lambda>p. views_block_number env (current_state s)
                         \<le> expiration (lock_from_bytes env (lock_encoded p))) proofs"
proof -
  let ?b = "views_block_number env (current_state s)"
  let ?new = "map (\<lambda>p. if expiration (lock_from_bytes env (lock_encoded p)) < ?b
                  then LogError ''Lock has expired!'' else ChannelWithdraw cid p) proofs"
  have run: "handle_contract_channelwithdraw env cid proofs s =
           (Inr (), s\<lparr>trace := trace s @ NettingChannel cid # ?new\<rparr>)"
    using assms(1)
    by (simp add: handle_contract_channelwithdraw_def and_then_def chain_call_def
        get_block_number_def Let_def withdraw_loop [OF assms(2)])
  have "submitted ?new =
      filter (\<lambda>p. \<not> expiration (lock_from_bytes env (lock_encoded p)) < ?b) proofs"
    by (rule submitted_map)
  then have "submitted ?new =
      filter (\<lambda>p. ?b \<le> expiration (lock_from_bytes env (lock_encoded p))) proofs"
    by (simp add: not_less)
  then have "submitted (trace s @ NettingChannel cid # ?new) =
      submitted (trace s) @
      filter (\<lambda>p. ?b \<le> expiration (lock_from_bytes env (lock_encoded p))) proofs"
    by (simp add: submitted_append)
  with run show ?thesis by simp
qed

theorem withdraw_submits_unexpired_witness:
  "\<not> chain_raises demo_env (NettingChannel [9]) \<and>
   on_raiden_event demo_env
     (ContractSendChannelWithdraw [9]
        [\<lparr>lock_encoded = [0, 0, 0, 0]\<rparr>, \<lparr>lock_encoded = [0, 0, 0, 0, 0]\<rparr>,
         \<lparr>lock_encoded = [0, 0, 0, 0, 0, 0]\<rparr>]) demo_node =
     (Inr (), demo_node\<lparr>trace :=
        [NettingChannel [9], LogError ''Lock has expired!'',
         ChannelWithdraw [9] \<lparr>lock_encoded = [0, 0, 0, 0, 0]\<rparr>,
         ChannelWithdraw [9] \<lparr>lock_encoded = [0, 0, 0, 0, 0, 0]\<rparr>]\<rparr>)"
proof -
  have h1: "\<not> chain_raises demo_env (NettingChannel [9])"
    by (simp add: demo_env_def)
  have h2: "\<forall>p \<in> set [\<lparr>lock_encoded = [0, 0, 0, 0]\<rparr>, \<lparr>lock_encoded = [0, 0, 0, 0, 0]\<rparr>,
       \<lparr>lock_encoded = [0, 0, 0, 0, 0, 0]\<rparr>].
      \<not> chain_raises demo_env (ChannelWithdraw [9] p)"
    by (simp add: demo_env_def)
  show ?thesis
    using h1 withdraw_submits_unexpired [OF h1 h2, of demo_node]
    by (simp add: demo_env_def demo_node_def)
qed

text \<open>
  Claim C1 as stated says that a lock whose expiration is at or before the current block
  is never submitted. At block 5 a lock that expires at block 5 is submitted.
\<close>

theorem withdraw_at_expiration_counterexample:
  "submitted (trace (snd (on_raiden_event demo_env
      (ContractSendChannelWithdraw [9] [\<lparr>lock_encoded = [0, 0, 0, 0, 0]\<rparr>]) demo_node))) =
     [\<lparr>lock_encoded = [0, 0, 0, 0, 0]\<rparr>] \<and>
   expiration (lock_from_bytes demo_env (lock_encoded \<lparr>lock_encoded = [0, 0, 0, 0, 0]\<rparr>)) \<le>
     views_block_number demo_env (current_state demo_node)"
  by (simp add: handle_contract_channelwithdraw_def done_with_def and_then_def invoke_def
      chain_call_def get_block_number_def Let_def demo_env_def demo_node_def)

section \<open>Completion handles\<close>

text \<open>
  Claim C2. Where an identifier is registered with a list of completion handles,
  dispatching the transfer-sent-success event for it sets every handle of the list to
  \<open>True\<close>, once each and in order, and removes the entry; the transfer-sent-failed event
  does the same with \<open>False\<close>; and starting a mediated transfer under that identifier
  fails on the assertion, after the health check of the target, with the registry as
  it was.
\<close>

theorem terminal_event_resolves_handles:
  assumes "identifier_to_results s i = Some handles"
  shows "on_raiden_event env (EventTransferSentSuccess i) s =
           (Inr (), s\<lparr>trace := trace s @ map (\<lambda>h. AsyncResultSet h True) handles,
                      identifier_to_results := (identifier_to_results s)(i := None)\<rparr>) \<and>
         on_raiden_event env (EventTransferSentFailed i) s =
           (Inr (), s\<lparr>trace := trace s @ map (\<lambda>h. AsyncResultSet h False) handles,
                      identifier_to_results := (identifier_to_results s)(i := None)\<rparr>) \<and>
         start_mediated_transfer env token_network amount target (Some i) s =
           (Inl AssertionError, s\<lparr>trace := trace s @ [StartHealthCheck target]\<rparr>)"
proof -
  have "start_mediated_transfer env token_network amount target (Some i) s =
      (Inl AssertionError, s\<lparr>trace := trace s @ [StartHealthCheck target]\<rparr>)"
    using assms
    by (simp add: start_mediated_transfer_def and_then_def invoke_def done_with_def)
  with transfersentsuccess_registered [OF assms] transfersentfailed_registered [OF assms]
  show ?thesis by simp
qed

theorem terminal_event_resolves_handles_witness:
  "identifier_to_results demo_node 42 = Some [0] \<and>
   on_raiden_event demo_env (EventTransferSentSuccess 42) demo_node =
     (Inr (), demo_node\<lparr>trace := trace demo_node @ map (\<lambda>h. AsyncResultSet h True) [0],
        identifier_to_results := (identifier_to_results demo_node)(42 := None)\<rparr>) \<and>
   on_raiden_event demo_env (EventTransferSentFailed 42) demo_node =
     (Inr (), demo_node\<lparr>trace := trace demo_node @ map (\<lambda>h. AsyncResultSet h False) [0],
        identifier_to_results := (identifier_to_results demo_node)(42 := None)\<rparr>) \<and>
   start_mediated_transfer demo_env [] 100 [] (Some 42) demo_node =
     (Inl AssertionError, demo_node\<lparr>trace := trace demo_node @ [StartHealthCheck []]\<rparr>)"
proof -
  have h: "identifier_to_results demo_node 42 = Some [0]"
    by (simp add: demo_node_def)
  show ?thesis
    using h terminal_event_resolves_handles [OF h, of demo_env "[]" 100 "[]"] by blast
qed

text \<open>
  Claim C9. Where an identifier has no entry in the registry, dispatching the
  transfer-sent-success or the transfer-sent-failed event for it raises nothing, calls
  nothing and leaves the node as it was: the lookup creates an empty list, the loop runs
  over nothing, and the deletion removes the entry again.
\<close>

theorem unregistered_terminal_event_harmless:
  assumes "identifier_to_results s i = None"
  shows "on_raiden_event env (EventTransferSentSuccess i) s = (Inr (), s) \<and>
         on_raiden_event env (EventTransferSentFailed i) s = (Inr (), s)"
  using assms
  by (simp add: handle_transfersentsuccess_def handle_transfersentfailed_def
      and_then_def results_getitem_def results_delitem_def done_with_def fun_upd_idem)

theorem unregistered_terminal_event_harmless_witness:
  "identifier_to_results demo_node 7 = None \<and>
   on_raiden_event demo_env (EventTransferSentSuccess 7) demo_node = (Inr (), demo_node) \<and>
   on_raiden_event demo_env (EventTransferSentFailed 7) demo_node = (Inr (), demo_node)"
proof -
  have h: "identifier_to_results demo_node 7 = None"
    by (simp add: demo_node_def)
  show ?thesis
    using h unregistered_terminal_event_harmless [OF h, of demo_env] by blast
qed

section \<open>Events without a handler\<close>

text \<open>
  Claim C4. An event whose type is none of the fourteen handled variants and none of the
  four uneventful ones is answered with one error log naming its type: the dispatch
  returns normally and changes nothing else. The four uneventful variants are recognised
  and skipped: the dispatch returns normally and does nothing at all.
\<close>

theorem unknown_event_logged:
  "on_raiden_event env (OtherEvent type_name) s =
     (Inr (), s\<lparr>trace := trace s @ [LogError (''Unknown event '' @ type_name)]\<rparr>) \<and>
   on_raiden_event env EventTransferReceivedSuccess s = (Inr (), s) \<and>
   on_raiden_event env EventUnlockSuccess s = (Inr (), s) \<and>
   on_raiden_event env EventWithdrawFailed s = (Inr (), s) \<and>
   on_raiden_event env EventWithdrawSuccess s = (Inr (), s)"
  by (simp add: invoke_def done_with_def)

section \<open>Closing and updating a channel\<close>

text \<open>
  Claim C6. Where the proxy of the event's channel identifier resolves, a
  \<^verbatim>\<open>ContractSendChannelClose\<close> event makes exactly two calls: the lookup of the proxy and
  its \<^verbatim>\<open>close\<close>, with the nonce, transferred amount, locksroot, message hash and signature
  of the event's balance proof, in this order, or with 0, 0 and three empty byte strings
  when the event has no balance proof. The dispatch raises only if \<^verbatim>\<open>close\<close> does.
\<close>

theorem channelclose_fields:
  assumes "\<not> chain_raises env (NettingChannel cid)"
  shows "on_raiden_event env (ContractSendChannelClose cid (Some bp)) s =
           (if chain_raises env
                 (ChannelClose cid (nonce bp) (transferred_amount bp) (locksroot bp)
                    (message_hash bp) (signature bp))
            then Inl (ChainFailure
                 (ChannelClose cid (nonce bp) (transferred_amount bp) (locksroot bp)
                    (message_hash bp) (signature bp)))
            else Inr (),
            s\<lparr>trace := trace s @
               [NettingChannel cid,
                ChannelClose cid (nonce bp) (transferred_amount bp) (locksroot bp)
                  (message_hash bp) (signature bp)]\<rparr>) \<and>
         on_raiden_event env (ContractSendChannelClose cid None) s =
           (if chain_raises env (ChannelClose cid 0 0 [] [] [])
            then Inl (ChainFailure (ChannelClose cid 0 0 [] [] [])) else Inr (),
            s\<lparr>trace := trace s @ [NettingChannel cid, ChannelClose cid 0 0 [] [] []]\<rparr>)"
  using assms
  by (simp add: handle_contract_channelclose_def and_then_def chain_call_def)

theorem channelclose_fields_witness:
  "\<not> chain_raises demo_env (NettingChannel [9]) \<and>
   on_raiden_event demo_env
     (ContractSendChannelClose [9]
        (Some \<lparr>nonce = 3, transferred_amount = 70, locksroot = [1], message_hash = [2],
               signature = [3]\<rparr>)) demo_node =
     (Inr (), demo_node\<lparr>trace := [NettingChannel [9], ChannelClose [9] 3 70 [1] [2] [3]]\<rparr>) \<and>
   on_raiden_event demo_env (ContractSendChannelClose [9] None) demo_node =
     (Inr (), demo_node\<lparr>trace := [NettingChannel [9], ChannelClose [9] 0 0 [] [] []]\<rparr>)"
proof -
  have h: "\<not> chain_raises demo_env (NettingChannel [9])"
    by (simp add: demo_env_def)
  show ?thesis
    using h channelclose_fields [OF h, of
        "\<lparr>nonce = 3, transferred_amount = 70, locksroot = [1], message_hash = [2],
          signature = [3]\<rparr>" demo_node]
    by (simp add: demo_env_def demo_node_def)
qed

text \<open>
  Claim C10. A \<^verbatim>\<open>ContractSendChannelUpdateTransfer\<close> event without a balance proof makes no
  call at all: the dispatch returns normally and the node is as it was. A
  \<^verbatim>\<open>ContractSendChannelClose\<close> event without a balance proof does look the proxy up and,
  where the lookup succeeds, calls \<^verbatim>\<open>close\<close> with zeroed fields.
\<close>

theorem channelupdate_without_proof_is_silent:
  "on_raiden_event env (ContractSendChannelUpdateTransfer cid None) s = (Inr (), s) \<and>
   trace (snd (on_raiden_event env (ContractSendChannelClose cid None) s)) =
     trace s @ NettingChannel cid #
       (if chain_raises env (NettingChannel cid) then [] else [ChannelClose cid 0 0 [] [] []])"
  by (simp add: handle_contract_channelupdate_def handle_contract_channelclose_def
      done_with_def and_then_def chain_call_def)

section \<open>Violated preconditions\<close>

text \<open>
  Claim C7. The checks of the constructor raise \<^verbatim>\<open>ValueError\<close> whenever the private key is
  not a bytes value of length 32, or the configured settle timeout is below the minimum
  or above the maximum; and \<^verbatim>\<open>sign\<close> raises \<^verbatim>\<open>ValueError\<close> on a message that is not a
  signed-message type, leaving the node as it was and the message unsigned.
\<close>

theorem precondition_violations_raise:
  "((\<forall>b. private_key_bin = PyBytes b \<longrightarrow> length b \<noteq> 32) \<or>
    settle_timeout config < NETTINGCHANNEL_SETTLE_TIMEOUT_MIN env \<or>
    settle_timeout config > NETTINGCHANNEL_SETTLE_TIMEOUT_MAX env
    \<longrightarrow> (\<exists>text. RaidenService_init_checks env private_key_bin config = Inl (ValueError text))) \<and>
   (\<not> signable m \<longrightarrow> (\<exists>text. sign m s = (Inl (ValueError text), s)))"
  by (auto simp add: RaidenService_init_checks_def sign_def split: pyobj.splits)

theorem precondition_violations_raise_witness:
  "(\<exists>text. RaidenService_init_checks demo_env (PyBytes (replicate 31 0))
      \<lparr>settle_timeout = 500\<rparr> = Inl (ValueError text)) \<and>
   settle_timeout \<lparr>settle_timeout = 5\<rparr> < NETTINGCHANNEL_SETTLE_TIMEOUT_MIN demo_env \<and>
   (\<exists>text. RaidenService_init_checks demo_env (PyBytes (replicate 32 0))
      \<lparr>settle_timeout = 5\<rparr> = Inl (ValueError text)) \<and>
   \<not> signable \<lparr>signable = False, msg_recipient = [], msg_body = [], msg_signature = None\<rparr> \<and>
   (\<exists>text. sign \<lparr>signable = False, msg_recipient = [], msg_body = [], msg_signature = None\<rparr>
      demo_node = (Inl (ValueError text), demo_node))"
proof -
  have h1: "\<forall>b. PyBytes (replicate 31 0) = PyBytes b \<longrightarrow> length b \<noteq> 32"
    by simp
  have h2: "settle_timeout \<lparr>settle_timeout = 5\<rparr> < NETTINGCHANNEL_SETTLE_TIMEOUT_MIN demo_env"
    by (simp add: demo_env_def)
  have h3: "\<not> signable \<lparr>signable = False, msg_recipient = [], msg_body = [], msg_signature = None\<rparr>"
    by simp
  from h1 precondition_violations_raise
      [of "PyBytes (replicate 31 0)" "\<lparr>settle_timeout = 500\<rparr>" demo_env]
  have c1: "\<exists>text. RaidenService_init_checks demo_env (PyBytes (replicate 31 0))
      \<lparr>settle_timeout = 500\<rparr> = Inl (ValueError text)"
    by blast
  from h2 precondition_violations_raise
      [of "PyBytes (replicate 32 0)" "\<lparr>settle_timeout = 5\<rparr>" demo_env]
  have c2: "\<exists>text. RaidenService_init_checks demo_env (PyBytes (replicate 32 0))
      \<lparr>settle_timeout = 5\<rparr> = Inl (ValueError text)"
    by blast
  from h3 precondition_violations_raise
      [of _ _ _ "\<lparr>signable = False, msg_recipient = [], msg_body = [], msg_signature = None\<rparr>"
        demo_node]
  have c3: "\<exists>text. sign \<lparr>signable = False, msg_recipient = [], msg_body = [], msg_signature = None\<rparr>
      demo_node = (Inl (ValueError text), demo_node)"
    by blast
  from h2 h3 c1 c2 c3 show ?thesis by blast
qed

section \<open>Applying a state change\<close>

lemmas run_defs = done_with_def and_then_def invoke_def chain_call_def
  results_getitem_def results_delitem_def get_block_number_def sign_def Let_def

lemma for_each_append:
  "for_each f (xs @ ys) s =
     (case for_each f xs s of (Inl e, s') \<Rightarrow> (Inl e, s') | (Inr u, s') \<Rightarrow> for_each f ys s')"
  by (induction xs arbitrary: s)
    (simp_all add: done_with_def and_then_def split: prod.splits sum.splits)

lemma dispatch_events_keeps:
  assumes tr: "\<And>s t. g (s\<lparr>trace := t\<rparr>) = g s"
    and res: "\<And>s m. g (s\<lparr>identifier_to_results := m\<rparr>) = g s"
  shows "g (snd (dispatch_events env events s)) = g s"
  unfolding dispatch_events_def
  by (intro for_each_keeps and_then_keeps invoke_keeps on_raiden_event_keeps tr res)

lemma log_and_dispatch_eq:
  "log_and_dispatch env sc b s =
     (Inr (snd (state_transition env (current_state s) sc)),
      s\<lparr>wal_log := wal_log s @ [(sc, b)],
        current_state := fst (state_transition env (current_state s) sc)\<rparr>)"
  by (simp add: log_and_dispatch_def split_def Let_def)

lemma handle_state_change_unfold:
  "handle_state_change env sc bn s =
     (case dispatch_events env (snd (state_transition env (current_state s) sc))
             (s\<lparr>trace := trace s @ [LogDebug ''STATE CHANGE''],
                wal_log := wal_log s @
                  [(sc, case bn of None \<Rightarrow> views_block_number env (current_state s) | Some b \<Rightarrow> b)],
                current_state := fst (state_transition env (current_state s) sc)\<rparr>) of
        (Inl e, s') \<Rightarrow> (Inl e, s')
      | (Inr u, s') \<Rightarrow> (Inr (snd (state_transition env (current_state s) sc)), s'))"
  by (cases bn)
    (simp_all add: handle_state_change_def and_then_def invoke_def get_block_number_def
      done_with_def log_and_dispatch_eq split: prod.splits sum.splits)

lemma snd_case_result:
  "snd (case r of (Inl e, s') \<Rightarrow> (Inl e, s') | (Inr u, s') \<Rightarrow> (Inr c, s')) = snd r"
  by (cases r) (simp split: sum.splits)

lemma handle_state_change_snd:
  "snd (handle_state_change env sc bn s) =
     snd (dispatch_events env (snd (state_transition env (current_state s) sc))
             (s\<lparr>trace := trace s @ [LogDebug ''STATE CHANGE''],
                wal_log := wal_log s @
                  [(sc, case bn of None \<Rightarrow> views_block_number env (current_state s) | Some b \<Rightarrow> b)],
                current_state := fst (state_transition env (current_state s) sc)\<rparr>))"
  unfolding handle_state_change_unfold by (rule snd_case_result)

lemma handle_state_change_wal_log:
  "wal_log (snd (handle_state_change env sc bn s)) =
     wal_log s @
       [(sc, case bn of None \<Rightarrow> views_block_number env (current_state s) | Some b \<Rightarrow> b)]"
  unfolding handle_state_change_snd
  by (subst dispatch_events_keeps) simp_all

lemma handle_state_change_current_state:
  "current_state (snd (handle_state_change env sc bn s)) =
     fst (state_transition env (current_state s) sc)"
  unfolding handle_state_change_snd
  by (subst dispatch_events_keeps) simp_all


text \<open>
  Claim C3, as the code has it. The loop of \<^verbatim>\<open>handle_state_change\<close> catches nothing. When
  the transition function answers a state change with the events \<open>pre @ e # post\<close>, the
  events \<open>pre\<close> are dispatched without an exception and the dispatch of \<open>e\<close> raises, the
  exception leaves \<^verbatim>\<open>handle_state_change\<close> with the node as the handler of \<open>e\<close> left it:
  the state change is logged and applied, the events \<open>pre\<close> are dispatched, and no event
  of \<open>post\<close> is attempted.
\<close>

theorem dispatch_failure_ends_batch:
  assumes "state_transition env (current_state s) sc = (ns, pre @ e # post)"
    and "dispatch_events env pre
           (s\<lparr>trace := trace s @ [LogDebug ''STATE CHANGE''],
              wal_log := wal_log s @
                [(sc, case bn of None \<Rightarrow> views_block_number env (current_state s) | Some b \<Rightarrow> b)],
              current_state := ns\<rparr>) = (Inr (), s1)"
    and "on_raiden_event env e (s1\<lparr>trace := trace s1 @ [LogDebug ''EVENT'']\<rparr>) = (Inl err, s2)"
  shows "handle_state_change env sc bn s = (Inl err, s2) \<and>
         wal_log s2 =
           wal_log s @
             [(sc, case bn of None \<Rightarrow> views_block_number env (current_state s) | Some b \<Rightarrow> b)] \<and>
         current_state s2 = ns"
proof -
  have run: "handle_state_change env sc bn s = (Inl err, s2)"
    using assms
    by (simp add: handle_state_change_unfold dispatch_events_def for_each_append
        and_then_def invoke_def)
  from handle_state_change_wal_log [of env sc bn s] run
  have "wal_log s2 =
      wal_log s @
        [(sc, case bn of None \<Rightarrow> views_block_number env (current_state s) | Some b \<Rightarrow> b)]"
    by simp
  moreover from handle_state_change_current_state [of env sc bn s] run assms(1)
  have "current_state s2 = ns" by simp
  ultimately show ?thesis using run by simp
qed

theorem dispatch_failure_ends_batch_witness:
  "handle_state_change failing_env ActionLeaveAllNetworks (Some 5) demo_node =
     (Inl (ChainFailure (ChannelSettle [1])),
      demo_node\<lparr>trace := [LogDebug ''STATE CHANGE'', LogDebug ''EVENT'', NettingChannel [0],
                  ChannelSettle [0], LogDebug ''EVENT'', NettingChannel [1], ChannelSettle [1]],
                wal_log := [(ActionLeaveAllNetworks, 5)]\<rparr>)"
proof -
  let ?s1 = "demo_node\<lparr>trace := [LogDebug ''STATE CHANGE'', LogDebug ''EVENT'',
                  NettingChannel [0], ChannelSettle [0]],
                wal_log := [(ActionLeaveAllNetworks, 5)]\<rparr>"
  let ?s2 = "demo_node\<lparr>trace := [LogDebug ''STATE CHANGE'', LogDebug ''EVENT'', NettingChannel [0],
                  ChannelSettle [0], LogDebug ''EVENT'', NettingChannel [1], ChannelSettle [1]],
                wal_log := [(ActionLeaveAllNetworks, 5)]\<rparr>"
  have h1: "state_transition failing_env (current_state demo_node) ActionLeaveAllNetworks =
      (5, [ContractSendChannelSettle [0]] @ ContractSendChannelSettle [1] #
          [ContractSendChannelSettle [2]])"
    by (simp add: failing_env_def demo_env_def demo_node_def)
  have h2: "dispatch_events failing_env [ContractSendChannelSettle [0]]
      (demo_node\<lparr>trace := trace demo_node @ [LogDebug ''STATE CHANGE''],
         wal_log := wal_log demo_node @
           [(ActionLeaveAllNetworks,
             case Some 5 of
               None \<Rightarrow> views_block_number failing_env (current_state demo_node)
             | Some b \<Rightarrow> b)],
         current_state := 5\<rparr>) =
      (Inr (), ?s1)"
    by (simp add: dispatch_events_def handle_contract_channelsettle_def run_defs
        failing_env_def demo_env_def demo_node_def)
  have h3: "on_raiden_event failing_env (ContractSendChannelSettle [1])
      (?s1\<lparr>trace := trace ?s1 @ [LogDebug ''EVENT'']\<rparr>) =
      (Inl (ChainFailure (ChannelSettle [1])), ?s2)"
    by (simp add: handle_contract_channelsettle_def run_defs
        failing_env_def demo_env_def demo_node_def)
  from dispatch_failure_ends_batch [where bn = "Some 5", OF h1 h2 h3] show ?thesis by simp
qed

text \<open>
  Claim C3 as stated says that every event of the batch is attempted. Here the transition
  function asks for the channels 0, 1 and 2 to be settled and the chain client fails on
  channel 1: the exception leaves \<^verbatim>\<open>handle_state_change\<close> and no call is made for
  channel 2.
\<close>

theorem dispatch_failure_counterexample:
  "snd (state_transition failing_env (current_state demo_node) ActionLeaveAllNetworks) =
     [ContractSendChannelSettle [0], ContractSendChannelSettle [1],
      ContractSendChannelSettle [2]] \<and>
   fst (handle_state_change failing_env ActionLeaveAllNetworks None demo_node) =
     Inl (ChainFailure (ChannelSettle [1])) \<and>
   trace (snd (handle_state_change failing_env ActionLeaveAllNetworks None demo_node)) =
     [LogDebug ''STATE CHANGE'', LogDebug ''EVENT'', NettingChannel [0], ChannelSettle [0],
      LogDebug ''EVENT'', NettingChannel [1], ChannelSettle [1]]"
  by (simp add: handle_state_change_def log_and_dispatch_def dispatch_events_def
      handle_contract_channelsettle_def run_defs failing_env_def demo_env_def demo_node_def)

section \<open>The alarm tick\<close>











section \<open>Starting a mediated transfer\<close>

lemma start_mediated_transfer_eq:
  assumes "i = (case requested of
                  None \<Rightarrow> random_randint env (draws s) 0 (UINT64_MAX env) | Some j \<Rightarrow> j)"
    and "identifier_to_results s i = None"
  shows "start_mediated_transfer env tn amount target requested s =
     (case handle_state_change env
             (ActionInitInitiator
                (TransferDescriptionWithSecretState i amount tn (address s) target
                   (random_secret env
                      (case requested of None \<Rightarrow> Suc (draws s) | Some j \<Rightarrow> draws s)))
                (routing_get_best_routes env (current_state s) tn (address s) target amount None))
             None
             (s\<lparr>trace := trace s @ [StartHealthCheck target],
                next_async_result := Suc (next_async_result s),
                identifier_to_results := (identifier_to_results s)(i \<mapsto> [next_async_result s]),
                draws := Suc (case requested of None \<Rightarrow> Suc (draws s) | Some j \<Rightarrow> draws s)\<rparr>) of
        (Inl e, s') \<Rightarrow> (Inl e, s')
      | (Inr u, s') \<Rightarrow> (Inr (next_async_result s), s'))"
  using assms
  by (cases requested)
    (auto simp add: start_mediated_transfer_def and_then_def invoke_def done_with_def
      create_default_identifier_def new_async_result_def results_append_def results_getitem_def
      draw_random_secret_def initiator_init_def Let_def split: prod.splits sum.splits)

lemma dispatch_transfersentfailed:
  assumes "identifier_to_results s i = Some handles"
  shows "dispatch_events env [EventTransferSentFailed i] s =
     (Inr (), s\<lparr>trace := trace s @ LogDebug ''EVENT'' # map (\<lambda>h. AsyncResultSet h False) handles,
                identifier_to_results := (identifier_to_results s)(i := None)\<rparr>)"
proof -
  have "identifier_to_results (s\<lparr>trace := trace s @ [LogDebug ''EVENT'']\<rparr>) i = Some handles"
    using assms by simp
  from transfersentfailed_registered [OF this] show ?thesis
    by (simp add: dispatch_events_def and_then_def invoke_def done_with_def)
qed

text \<open>
  Claim C8. A mediated transfer is started under an identifier \<open>i\<close> that is not registered
  (the one requested, or a random one). Whatever the routes are, also when there are
  none, the initiator-init state change is appended to the durable log, at the current
  block number, before any event is dispatched. When there are no routes and the
  transition function answers with the transfer-sent-failed event for \<open>i\<close>, the call
  returns the fresh completion handle, already set to \<open>False\<close> by the handler of that
  event, and the entry of \<open>i\<close> is gone from the registry.
\<close>

theorem initiation_logged_before_failure:
  assumes "i = (case requested of
                  None \<Rightarrow> random_randint env (draws s) 0 (UINT64_MAX env) | Some j \<Rightarrow> j)"
    and "identifier_to_results s i = None"
    and "transfer =
           TransferDescriptionWithSecretState i amount tn (address s) target
             (random_secret env (case requested of None \<Rightarrow> Suc (draws s) | Some j \<Rightarrow> draws s))"
    and "routes = routing_get_best_routes env (current_state s) tn (address s) target amount None"
  shows "wal_log (snd (start_mediated_transfer env tn amount target requested s)) =
           wal_log s @
             [(ActionInitInitiator transfer routes, views_block_number env (current_state s))] \<and>
         (routes = [] \<and> fails_without_routes env (current_state s) transfer \<longrightarrow>
            fst (start_mediated_transfer env tn amount target requested s) =
              Inr (next_async_result s) \<and>
            trace (snd (start_mediated_transfer env tn amount target requested s)) =
              trace s @
                [StartHealthCheck target, LogDebug ''STATE CHANGE'', LogDebug ''EVENT'',
                 AsyncResultSet (next_async_result s) False] \<and>
            identifier_to_results (snd (start_mediated_transfer env tn amount target requested s)) =
              identifier_to_results s)"
proof -
  let ?h = "next_async_result s"
  let ?s3 = "s\<lparr>trace := trace s @ [StartHealthCheck target],
                next_async_result := Suc (next_async_result s),
                identifier_to_results := (identifier_to_results s)(i \<mapsto> [?h]),
                draws := Suc (case requested of None \<Rightarrow> Suc (draws s) | Some j \<Rightarrow> draws s)\<rparr>"
  let ?init = "ActionInitInitiator transfer routes"
  have run: "start_mediated_transfer env tn amount target requested s =
      (case handle_state_change env ?init None ?s3 of
         (Inl e, s') \<Rightarrow> (Inl e, s') | (Inr u, s') \<Rightarrow> (Inr ?h, s'))"
    unfolding assms(3) assms(4) by (rule start_mediated_transfer_eq [OF assms(1) assms(2)])
  then have "snd (start_mediated_transfer env tn amount target requested s) =
      snd (handle_state_change env ?init None ?s3)"
    by (simp add: snd_case_result)
  then have logged: "wal_log (snd (start_mediated_transfer env tn amount target requested s)) =
      wal_log s @ [(?init, views_block_number env (current_state s))]"
    by (simp add: handle_state_change_wal_log)
  have failed: "fst (start_mediated_transfer env tn amount target requested s) = Inr ?h \<and>
      trace (snd (start_mediated_transfer env tn amount target requested s)) =
        trace s @ [StartHealthCheck target, LogDebug ''STATE CHANGE'', LogDebug ''EVENT'',
                   AsyncResultSet ?h False] \<and>
      identifier_to_results (snd (start_mediated_transfer env tn amount target requested s)) =
        identifier_to_results s"
    if none: "routes = []" and fails: "fails_without_routes env (current_state s) transfer"
  proof -
    from fails have events:
      "snd (state_transition env (current_state s) (ActionInitInitiator transfer [])) =
         [EventTransferSentFailed i]"
      by (simp add: fails_without_routes_def assms(3))
    let ?s4 = "?s3\<lparr>trace := trace ?s3 @ [LogDebug ''STATE CHANGE''],
                wal_log := wal_log ?s3 @
                  [(ActionInitInitiator transfer [], views_block_number env (current_state ?s3))],
                current_state :=
                  fst (state_transition env (current_state ?s3) (ActionInitInitiator transfer []))\<rparr>"
    have "identifier_to_results ?s4 i = Some [?h]" by simp
    from dispatch_transfersentfailed [OF this, of env]
    have "dispatch_events env [EventTransferSentFailed i] ?s4 =
        (Inr (), ?s4\<lparr>trace := trace ?s4 @ [LogDebug ''EVENT'', AsyncResultSet ?h False],
                    identifier_to_results := (identifier_to_results ?s4)(i := None)\<rparr>)"
      by simp
    with events have "handle_state_change env (ActionInitInitiator transfer []) None ?s3 =
        (Inr [EventTransferSentFailed i],
         ?s4\<lparr>trace := trace ?s4 @ [LogDebug ''EVENT'', AsyncResultSet ?h False],
             identifier_to_results := (identifier_to_results ?s4)(i := None)\<rparr>)"
      by (simp add: handle_state_change_unfold)
    with run none show ?thesis
      using assms(2) by (simp add: fun_upd_idem)
  qed
  from logged failed show ?thesis by blast
qed

theorem initiation_logged_before_failure_witness:
  "identifier_to_results demo_node 7 = None \<and>
   routing_get_best_routes demo_env (current_state demo_node) [] (address demo_node) [] 100 None = [] \<and>
   fails_without_routes demo_env (current_state demo_node)
     (TransferDescriptionWithSecretState 7 100 [] [] [] []) \<and>
   wal_log (snd (start_mediated_transfer demo_env [] 100 [] (Some 7) demo_node)) =
     [(ActionInitInitiator (TransferDescriptionWithSecretState 7 100 [] [] [] []) [], 5)] \<and>
   fst (start_mediated_transfer demo_env [] 100 [] (Some 7) demo_node) = Inr 1 \<and>
   trace (snd (start_mediated_transfer demo_env [] 100 [] (Some 7) demo_node)) =
     [StartHealthCheck [], LogDebug ''STATE CHANGE'', LogDebug ''EVENT'', AsyncResultSet 1 False] \<and>
   identifier_to_results (snd (start_mediated_transfer demo_env [] 100 [] (Some 7) demo_node)) =
     identifier_to_results demo_node"
proof -
  have h1: "(7::int) = (case Some 7 of
       None \<Rightarrow> random_randint demo_env (draws demo_node) 0 (UINT64_MAX demo_env) | Some j \<Rightarrow> j)"
    by simp
  have h2: "identifier_to_results demo_node 7 = None"
    by (simp add: demo_node_def)
  have h3: "TransferDescriptionWithSecretState 7 100 [] [] [] [] =
      TransferDescriptionWithSecretState 7 100 [] (address demo_node) []
        (random_secret demo_env
           (case Some (7::int) of None \<Rightarrow> Suc (draws demo_node) | Some j \<Rightarrow> draws demo_node))"
    by (simp add: demo_env_def demo_node_def)
  have h4: "[] = routing_get_best_routes demo_env (current_state demo_node) []
      (address demo_node) [] 100 None"
    by (simp add: demo_env_def)
  have h5: "fails_without_routes demo_env (current_state demo_node)
      (TransferDescriptionWithSecretState 7 100 [] [] [] [])"
    by (simp add: fails_without_routes_def demo_env_def)
  have b: "views_block_number demo_env (current_state demo_node) = 5"
    "next_async_result demo_node = 1" "trace demo_node = []" "wal_log demo_node = []"
    by (simp_all add: demo_env_def demo_node_def)
  from initiation_logged_before_failure [OF h1 h2 h3 h4] h5 b h2 h4
  show ?thesis by simp
qed

end
